theory Spec2Isabelle
  imports Main
begin

section \<open>Data model\<close>

text \<open>
  The entity of both deployment variants (\<^verbatim>\<open>type Source struct\<close>, identical in
  \<^verbatim>\<open>main.go\<close> and in the v2 handler file).
\<close>

record Source =
  ID :: string
  Name :: string
  Url :: string

definition zero_Source :: Source where
  \<open>zero_Source = \<lparr>ID = [], Name = [], Url = []\<rparr>\<close>

text \<open>
  The attribute values of the table client (\<^verbatim>\<open>types.AttributeValue\<close>): a tagged
  union, of which the handlers only ever build and read the string member.
\<close>

datatype AttributeValue =
    AttributeValueMemberS string
  | AttributeValueMemberN string
  | AttributeValueMemberB string
  | AttributeValueMemberBOOL bool
  | AttributeValueMemberNULL bool
  | AttributeValueMemberSS \<open>string list\<close>
  | AttributeValueMemberNS \<open>string list\<close>
  | AttributeValueMemberBS \<open>string list\<close>
  | AttributeValueMemberL \<open>AttributeValue list\<close>
  | AttributeValueMemberM \<open>(string \<times> AttributeValue) list\<close>

text \<open>A persistence item is a Go \<^verbatim>\<open>map[string]types.AttributeValue\<close>.\<close>

type_synonym item = \<open>string \<rightharpoonup> AttributeValue\<close>

text \<open>
  The inbound event. The legacy handler reads \<^verbatim>\<open>HTTPMethod\<close>, \<^verbatim>\<open>PathParameters\<close> and
  \<^verbatim>\<open>Body\<close> of an \<^verbatim>\<open>APIGatewayProxyRequest\<close>; the v2 handler reads
  \<^verbatim>\<open>RequestContext.HTTP.Method\<close>, \<^verbatim>\<open>PathParameters\<close>, \<^verbatim>\<open>Body\<close> and
  \<^verbatim>\<open>RequestContext.Authorizer.JWT.Claims\<close> of an \<^verbatim>\<open>APIGatewayV2HTTPRequest\<close>.
  The v2 event is the legacy one extended by the authorizer context, so the
  operations shared by both variants are written once, over any extension of the
  record. In the event library \<^verbatim>\<open>Authorizer\<close> and \<^verbatim>\<open>JWT\<close> are pointers: an event of a
  route without a JWT authorizer has none (\<^verbatim>\<open>None\<close>), and reading through a nil
  pointer panics.
\<close>

record request =
  HTTPMethod :: string
  PathParameters :: \<open>string \<rightharpoonup> string\<close>
  Body :: string

record jwt_description =
  Claims :: \<open>string \<rightharpoonup> string\<close>

record authorizer_description =
  JWT :: \<open>jwt_description option\<close>

record request_v2 = request +
  Authorizer :: \<open>authorizer_description option\<close>

text \<open>The authorizer context of an event that passed a JWT authorizer with these claims.\<close>

definition jwt_authorizer :: \<open>(string \<rightharpoonup> string) \<Rightarrow> authorizer_description option\<close> where
  \<open>jwt_authorizer c = Some \<lparr>JWT = Some \<lparr>Claims = c\<rparr>\<rparr>\<close>

text \<open>Reading a Go \<^verbatim>\<open>map[string]string\<close>: a missing key yields the empty string.\<close>

definition index_str :: \<open>(string \<rightharpoonup> string) \<Rightarrow> string \<Rightarrow> string\<close> where
  \<open>index_str m k = (case m k of None \<Rightarrow> [] | Some v \<Rightarrow> v)\<close>

record response =
  StatusCode :: int
  RespBody :: string

text \<open>
  What one invocation does: it returns a response (always paired with a nil error
  in the source), or the process exits in \<^verbatim>\<open>log.Fatalf\<close>, or a type assertion panics.
\<close>

datatype outcome = Returned response | Exited | Panicked

section \<open>The environment of one invocation\<close>

text \<open>
  \<^verbatim>\<open>cfg_err\<close>: \<^verbatim>\<open>config.LoadDefaultConfig\<close> fails; \<^verbatim>\<open>svc_err\<close>: the one table call of
  the invocation returns an error; \<^verbatim>\<open>new_uuid\<close>: the string that
  \<^verbatim>\<open>uuid.New().String()\<close> yields in this invocation (the random source is taken
  to be available, so that \<^verbatim>\<open>uuid.New\<close> does not panic).
\<close>

record env =
  cfg_err :: bool
  svc_err :: bool
  new_uuid :: string

text \<open>
  The two functions of \<^verbatim>\<open>encoding/json\<close> the handlers use, as parameters:
  \<^verbatim>\<open>Unmarshal\<close> gives the Source that \<^verbatim>\<open>json.Unmarshal([]byte(body), &source)\<close> leaves
  in a zero-initialised \<^verbatim>\<open>source\<close> (its error is discarded by the handlers);
  \<^verbatim>\<open>escape\<close> gives the characters that \<^verbatim>\<open>json.Marshal\<close> writes between the two
  quotes of a string.
\<close>

record json =
  Unmarshal :: \<open>string \<Rightarrow> Source\<close>
  escape :: \<open>string \<Rightarrow> string\<close>

section \<open>The table\<close>

datatype db_call =
    Scan
  | GetItem string
  | PutItem item
  | DeleteItem string

text \<open>The table in scan order, and the calls issued against it so far.\<close>

record world =
  table :: \<open>item list\<close>
  calls :: \<open>db_call list\<close>

definition has_key :: \<open>string \<Rightarrow> item \<Rightarrow> bool\<close> where
  \<open>has_key k r = (r ''id'' = Some (AttributeValueMemberS k))\<close>

fun upsert :: \<open>item \<Rightarrow> item list \<Rightarrow> item list\<close> where
  \<open>upsert it [] = [it]\<close>
| \<open>upsert it (r # rs) = (if r ''id'' = it ''id'' then it # rs else r # upsert it rs)\<close>

text \<open>
  Modelled from the spec: the table client (\<^verbatim>\<open>svc.Scan\<close>, \<^verbatim>\<open>svc.GetItem\<close>, \<^verbatim>\<open>svc.PutItem\<close>,
  \<^verbatim>\<open>svc.DeleteItem\<close>) is a library outside the repository. Section 4.4 of the
  specification: scan yields all records currently stored; get yields the matching
  record or nothing; put is an unconditional upsert; delete is an unconditional
  removal, and deleting an absent id is no error. Each call is recorded; a failing
  call (\<^verbatim>\<open>err != nil\<close>, result \<^verbatim>\<open>None\<close>) leaves the table as it was.
\<close>

definition svc_Scan :: \<open>env \<Rightarrow> world \<Rightarrow> item list option \<times> world\<close> where
  \<open>svc_Scan e w =
     (if svc_err e then None else Some (table w), w\<lparr>calls := calls w @ [Scan]\<rparr>)\<close>

definition svc_GetItem :: \<open>env \<Rightarrow> string \<Rightarrow> world \<Rightarrow> item option option \<times> world\<close> where
  \<open>svc_GetItem e k w =
     (if svc_err e then None else Some (find (has_key k) (table w)),
      w\<lparr>calls := calls w @ [GetItem k]\<rparr>)\<close>

definition svc_PutItem :: \<open>env \<Rightarrow> item \<Rightarrow> world \<Rightarrow> unit option \<times> world\<close> where
  \<open>svc_PutItem e it w =
     (if svc_err e then (None, w\<lparr>calls := calls w @ [PutItem it]\<rparr>)
      else (Some (), w\<lparr>table := upsert it (table w), calls := calls w @ [PutItem it]\<rparr>))\<close>

definition svc_DeleteItem :: \<open>env \<Rightarrow> string \<Rightarrow> world \<Rightarrow> unit option \<times> world\<close> where
  \<open>svc_DeleteItem e k w =
     (if svc_err e then (None, w\<lparr>calls := calls w @ [DeleteItem k]\<rparr>)
      else (Some (), w\<lparr>table := filter (\<lambda>r. \<not> has_key k r) (table w),
                        calls := calls w @ [DeleteItem k]\<rparr>))\<close>

section \<open>Operations shared by both variants\<close>

text \<open>
  \<^verbatim>\<open>getDynamoDbService\<close>: when loading the configuration fails, \<^verbatim>\<open>log.Fatalf\<close> ends
  the process (result \<^verbatim>\<open>None\<close>), so the \<^verbatim>\<open>return nil, err\<close> after it is never
  reached; otherwise the client is returned with a nil error (\<^verbatim>\<open>False\<close>).
\<close>

definition getDynamoDbService :: \<open>env \<Rightarrow> (unit \<times> bool) option\<close> where
  \<open>getDynamoDbService e = (if cfg_err e then None else Some ((), False))\<close>

text \<open>
  \<^verbatim>\<open>getSourceFromRecord\<close>: each of the three type assertions
  \<^verbatim>\<open>rec[k].(*types.AttributeValueMemberS)\<close> panics (\<^verbatim>\<open>None\<close>) when the attribute is
  missing (a nil interface) or holds another member of the union.
\<close>

definition assert_S :: \<open>AttributeValue option \<Rightarrow> string option\<close> where
  \<open>assert_S a = (case a of Some (AttributeValueMemberS v) \<Rightarrow> Some v | _ \<Rightarrow> None)\<close>

definition getSourceFromRecord :: \<open>item \<Rightarrow> Source option\<close> where
  \<open>getSourceFromRecord rec =
     (case assert_S (rec ''id'') of None \<Rightarrow> None | Some i \<Rightarrow>
       (case assert_S (rec ''name'') of None \<Rightarrow> None | Some n \<Rightarrow>
          (case assert_S (rec ''url'') of None \<Rightarrow> None | Some u \<Rightarrow>
             Some \<lparr>ID = i, Name = n, Url = u\<rparr>)))\<close>

text \<open>The loop of \<^verbatim>\<open>getAllHandler\<close> over \<^verbatim>\<open>result.Items\<close>; the first panic ends it.\<close>

fun getSources :: \<open>item list \<Rightarrow> Source list option\<close> where
  \<open>getSources [] = Some []\<close>
| \<open>getSources (r # rs) =
     (case getSourceFromRecord r of None \<Rightarrow> None | Some s \<Rightarrow>
       (case getSources rs of None \<Rightarrow> None | Some ss \<Rightarrow> Some (s # ss)))\<close>

text \<open>
  \<^verbatim>\<open>json.Marshal\<close> of a string, of a \<^verbatim>\<open>Source\<close> (the field tags \<^verbatim>\<open>id\<close>, \<^verbatim>\<open>name\<close>,
  \<^verbatim>\<open>url\<close>, in declaration order) and of a non-nil \<^verbatim>\<open>[]Source\<close>.
\<close>

definition marshal_string :: \<open>json \<Rightarrow> string \<Rightarrow> string\<close> where
  \<open>marshal_string j s = ''"'' @ escape j s @ ''"''\<close>

definition marshal_Source :: \<open>json \<Rightarrow> Source \<Rightarrow> string\<close> where
  \<open>marshal_Source j s =
     ''{"id":'' @ marshal_string j (ID s) @
     '',"name":'' @ marshal_string j (Name s) @
     '',"url":'' @ marshal_string j (Url s) @ ''}''\<close>

fun marshal_elems :: \<open>json \<Rightarrow> Source list \<Rightarrow> string\<close> where
  \<open>marshal_elems j [] = []\<close>
| \<open>marshal_elems j [s] = marshal_Source j s\<close>
| \<open>marshal_elems j (s # ss) = marshal_Source j s @ '','' @ marshal_elems j ss\<close>

definition marshal_Sources :: \<open>json \<Rightarrow> Source list \<Rightarrow> string\<close> where
  \<open>marshal_Sources j ss = ''['' @ marshal_elems j ss @ '']''\<close>

definition serverError :: \<open>string \<Rightarrow> response\<close> where
  \<open>serverError message =
     \<lparr>StatusCode = 500, RespBody = ''{"error": "'' @ message @ ''"}''\<rparr>\<close>

definition ok :: \<open>string \<Rightarrow> response\<close> where
  \<open>ok content = \<lparr>StatusCode = 200, RespBody = content\<rparr>\<close>

definition created :: \<open>string \<Rightarrow> response\<close> where
  \<open>created content = \<lparr>StatusCode = 201, RespBody = content\<rparr>\<close>

definition getAllHandler :: \<open>json \<Rightarrow> env \<Rightarrow> world \<Rightarrow> outcome \<times> world\<close> where
  \<open>getAllHandler j e w =
     (case getDynamoDbService e of
        None \<Rightarrow> (Exited, w)
      | Some (svc, err) \<Rightarrow>
          if err then (Returned (serverError ''Failed to retrieve sources''), w)
          else (case svc_Scan e w of
              (None, w') \<Rightarrow> (Returned (serverError ''Failed to retrieve sources''), w')
            | (Some items, w') \<Rightarrow>
                (case getSources items of
                   None \<Rightarrow> (Panicked, w')
                 | Some sources \<Rightarrow> (Returned (ok (marshal_Sources j sources)), w'))))\<close>

definition getHandler :: \<open>json \<Rightarrow> env \<Rightarrow> 'a request_scheme \<Rightarrow> world \<Rightarrow> outcome \<times> world\<close> where
  \<open>getHandler j e req w =
     (let id = index_str (PathParameters req) ''id'' in
      if id = [] then getAllHandler j e w
      else
        (case getDynamoDbService e of
           None \<Rightarrow> (Exited, w)
         | Some (svc, err) \<Rightarrow>
             if err then (Returned (serverError ''Failed to retrieve source''), w)
             else (case svc_GetItem e id w of
                 (None, w') \<Rightarrow> (Returned (serverError ''Failed to retrieve source''), w')
               | (Some None, w') \<Rightarrow>
                   (Returned \<lparr>StatusCode = 404, RespBody = ''{"error": "not found"}''\<rparr>, w')
               | (Some (Some it), w') \<Rightarrow>
                   (case getSourceFromRecord it of
                      None \<Rightarrow> (Panicked, w')
                    | Some source \<Rightarrow> (Returned (ok (marshal_Source j source)), w')))))\<close>

definition postHandler :: \<open>json \<Rightarrow> env \<Rightarrow> 'a request_scheme \<Rightarrow> world \<Rightarrow> outcome \<times> world\<close> where
  \<open>postHandler j e req w =
     (let source = Unmarshal j (Body req) in
      case getDynamoDbService e of
        None \<Rightarrow> (Exited, w)
      | Some (svc, err) \<Rightarrow>
          if err then (Returned (serverError ''Failed to create source''), w)
          else
            (let input = [''id'' \<mapsto> AttributeValueMemberS (new_uuid e),
                          ''name'' \<mapsto> AttributeValueMemberS (Name source),
                          ''url'' \<mapsto> AttributeValueMemberS (Url source)] in
             case svc_PutItem e input w of
               (None, w') \<Rightarrow> (Returned (serverError ''Failed to store source''), w')
             | (Some _, w') \<Rightarrow> (Returned (created (ID source)), w')))\<close>

definition putHandler :: \<open>json \<Rightarrow> env \<Rightarrow> 'a request_scheme \<Rightarrow> world \<Rightarrow> outcome \<times> world\<close> where
  \<open>putHandler j e req w =
     (let source = Unmarshal j (Body req) in
      case getDynamoDbService e of
        None \<Rightarrow> (Exited, w)
      | Some (svc, err) \<Rightarrow>
          if err then (Returned (serverError ''Failed to update source''), w)
          else
            (let input = [''id'' \<mapsto> AttributeValueMemberS (ID source),
                          ''name'' \<mapsto> AttributeValueMemberS (Name source),
                          ''url'' \<mapsto> AttributeValueMemberS (Url source)] in
             case svc_PutItem e input w of
               (None, w') \<Rightarrow> (Returned (serverError ''Failed to store source''), w')
             | (Some _, w') \<Rightarrow> (Returned (ok (ID source)), w')))\<close>

definition deleteHandler :: \<open>json \<Rightarrow> env \<Rightarrow> 'a request_scheme \<Rightarrow> world \<Rightarrow> outcome \<times> world\<close> where
  \<open>deleteHandler j e req w =
     (let id = index_str (PathParameters req) ''id'' in
      if id = [] then getAllHandler j e w
      else
        (case getDynamoDbService e of
           None \<Rightarrow> (Exited, w)
         | Some (svc, err) \<Rightarrow>
             if err then (Returned (serverError ''Failed to retrieve source''), w)
             else (case svc_DeleteItem e id w of
                 (None, w') \<Rightarrow> (Returned (serverError ''Failed to delete source''), w')
               | (Some _, w') \<Rightarrow> (Returned (ok id), w'))))\<close>

section \<open>The legacy handler (main.go)\<close>

definition handler :: \<open>json \<Rightarrow> env \<Rightarrow> request \<Rightarrow> world \<Rightarrow> outcome \<times> world\<close> where
  \<open>handler j e request w =
     (if HTTPMethod request = ''GET'' then getHandler j e request w
      else if HTTPMethod request = ''POST'' then postHandler j e request w
      else if HTTPMethod request = ''PUT'' then putHandler j e request w
      else if HTTPMethod request = ''DELETE'' then deleteHandler j e request w
      else (Returned \<lparr>StatusCode = 405, RespBody = ''unsupported http method''\<rparr>, w))\<close>

section \<open>The v2 handler\<close>

definition unauthorized :: response where
  \<open>unauthorized = \<lparr>StatusCode = 401, RespBody = ''{"error": "Unauthorised"}''\<rparr>\<close>

definition notAllowed :: response where
  \<open>notAllowed = \<lparr>StatusCode = 405, RespBody = ''{"error": "Unsupported HTTP method"}''\<rparr>\<close>

definition write_scope :: string where
  \<open>write_scope = ''https://wordlist.gaul.tech/write''\<close>

text \<open>
  The read \<^verbatim>\<open>req.RequestContext.Authorizer.JWT.Claims["scope"]\<close>: a nil \<^verbatim>\<open>Authorizer\<close>
  or a nil \<^verbatim>\<open>JWT\<close> is a nil dereference (\<^verbatim>\<open>None\<close>, the handler panics); a claims map
  without the key yields the empty string.
\<close>

definition read_scope :: \<open>request_v2 \<Rightarrow> string option\<close> where
  \<open>read_scope req =
     (case Authorizer req of
        None \<Rightarrow> None
      | Some a \<Rightarrow>
          (case JWT a of
             None \<Rightarrow> None
           | Some t \<Rightarrow> Some (index_str (Claims t) ''scope'')))\<close>

definition handler_v2 :: \<open>json \<Rightarrow> env \<Rightarrow> request_v2 \<Rightarrow> world \<Rightarrow> outcome \<times> world\<close> where
  \<open>handler_v2 j e req w =
     (if HTTPMethod req = ''GET'' then getHandler j e req w
      else
        (case read_scope req of
           None \<Rightarrow> (Panicked, w)
         | Some scope \<Rightarrow>
             if scope \<noteq> write_scope then (Returned unauthorized, w)
             else if HTTPMethod req = ''POST'' then postHandler j e req w
             else if HTTPMethod req = ''PUT'' then putHandler j e req w
             else if HTTPMethod req = ''DELETE'' then deleteHandler j e req w
             else (Returned notAllowed, w)))\<close>

section \<open>Sequences of invocations\<close>

text \<open>
  Each invocation runs in its own environment; the table is what one invocation
  leaves to the next (a process that exits or panics loses nothing of it).
\<close>

fun run :: \<open>json \<Rightarrow> (env \<times> request) list \<Rightarrow> world \<Rightarrow> world\<close> where
  \<open>run j [] w = w\<close>
| \<open>run j ((e, r) # rs) w = run j rs (snd (handler j e r w))\<close>

fun run_v2 :: \<open>json \<Rightarrow> (env \<times> request_v2) list \<Rightarrow> world \<Rightarrow> world\<close> where
  \<open>run_v2 j [] w = w\<close>
| \<open>run_v2 j ((e, r) # rs) w = run_v2 j rs (snd (handler_v2 j e r w))\<close>

definition empty_world :: world where
  \<open>empty_world = \<lparr>table = [], calls = []\<rparr>\<close>

text \<open>The invariant of the data model: the record has a non-empty string id.\<close>

definition id_nonempty :: \<open>item \<Rightarrow> bool\<close> where
  \<open>id_nonempty r = (case r ''id'' of Some (AttributeValueMemberS v) \<Rightarrow> v \<noteq> [] | _ \<Rightarrow> False)\<close>

definition is_read :: \<open>db_call \<Rightarrow> bool\<close> where
  \<open>is_read c = (case c of Scan \<Rightarrow> True | GetItem k \<Rightarrow> True | _ \<Rightarrow> False)\<close>

section \<open>JSON texts\<close>

text \<open>
  The grammar of JSON texts (RFC 8259) as a scanner: a mode, and the stack of the
  arrays and objects that are open. A body is valid JSON when the scanner, started
  where a value must begin, ends after one complete value with nothing open.
\<close>

definition is_ws :: \<open>char \<Rightarrow> bool\<close> where
  \<open>is_ws c = (c = CHR '' '' \<or> c = CHR 0x09 \<or> c = CHR 0x0A \<or> c = CHR 0x0D)\<close>

definition is_digit :: \<open>char \<Rightarrow> bool\<close> where
  \<open>is_digit c = (c \<in> set ''0123456789'')\<close>

definition is_hex :: \<open>char \<Rightarrow> bool\<close> where
  \<open>is_hex c = (c \<in> set ''0123456789abcdefABCDEF'')\<close>

datatype jctx = InArray | InObjKey | InObjVal

datatype jmode =
    BeginValue
  | BeginValueOrEmpty
  | BeginStringOrEmpty
  | BeginString
  | InString
  | InStringEsc
  | InStringEscU nat
  | Neg
  | Zero
  | Digits
  | Dot
  | Frac
  | Exp
  | ExpSign
  | ExpDigits
  | Lit string
  | EndValue
  | Invalid

type_synonym jstate = \<open>jmode \<times> jctx list\<close>

fun begin_value :: \<open>jctx list \<Rightarrow> char \<Rightarrow> jstate\<close> where
  \<open>begin_value st c =
     (if c = CHR ''{'' then (BeginStringOrEmpty, InObjKey # st)
      else if c = CHR ''['' then (BeginValueOrEmpty, InArray # st)
      else if c = CHR ''"'' then (InString, st)
      else if c = CHR ''-'' then (Neg, st)
      else if c = CHR ''0'' then (Zero, st)
      else if is_digit c then (Digits, st)
      else if c = CHR ''t'' then (Lit ''rue'', st)
      else if c = CHR ''f'' then (Lit ''alse'', st)
      else if c = CHR ''n'' then (Lit ''ull'', st)
      else (Invalid, st))\<close>

fun end_value :: \<open>jctx list \<Rightarrow> char \<Rightarrow> jstate\<close> where
  \<open>end_value st c =
     (if is_ws c then (EndValue, st)
      else (case st of
          [] \<Rightarrow> (Invalid, st)
        | InObjKey # up \<Rightarrow> if c = CHR '':'' then (BeginValue, InObjVal # up) else (Invalid, st)
        | InObjVal # up \<Rightarrow>
            if c = CHR '','' then (BeginString, InObjKey # up)
            else if c = CHR ''}'' then (EndValue, up) else (Invalid, st)
        | InArray # up \<Rightarrow>
            if c = CHR '','' then (BeginValue, st)
            else if c = CHR '']'' then (EndValue, up) else (Invalid, st)))\<close>

fun step :: \<open>jstate \<Rightarrow> char \<Rightarrow> jstate\<close> where
  \<open>step (BeginValue, st) c = (if is_ws c then (BeginValue, st) else begin_value st c)\<close>
| \<open>step (BeginValueOrEmpty, st) c =
     (if is_ws c then (BeginValueOrEmpty, st)
      else if c = CHR '']'' then (EndValue, tl st) else begin_value st c)\<close>
| \<open>step (BeginStringOrEmpty, st) c =
     (if is_ws c then (BeginStringOrEmpty, st)
      else if c = CHR ''}'' then (EndValue, tl st)
      else if c = CHR ''"'' then (InString, st) else (Invalid, st))\<close>
| \<open>step (BeginString, st) c =
     (if is_ws c then (BeginString, st)
      else if c = CHR ''"'' then (InString, st) else (Invalid, st))\<close>
| \<open>step (InString, st) c =
     (if c = CHR ''"'' then (EndValue, st)
      else if c = CHR 0x5C then (InStringEsc, st)
      else if (of_char c :: nat) < 32 then (Invalid, st) else (InString, st))\<close>
| \<open>step (InStringEsc, st) c =
     (if c \<in> set [CHR ''"'', CHR 0x5C, CHR ''/'', CHR ''b'', CHR ''f'', CHR ''n'', CHR ''r'', CHR ''t'']
      then (InString, st)
      else if c = CHR ''u'' then (InStringEscU 4, st) else (Invalid, st))\<close>
| \<open>step (InStringEscU n, st) c =
     (if is_hex c then (if n \<le> 1 then (InString, st) else (InStringEscU (n - 1), st))
      else (Invalid, st))\<close>
| \<open>step (Neg, st) c =
     (if c = CHR ''0'' then (Zero, st) else if is_digit c then (Digits, st) else (Invalid, st))\<close>
| \<open>step (Zero, st) c =
     (if c = CHR ''.'' then (Dot, st)
      else if c = CHR ''e'' \<or> c = CHR ''E'' then (Exp, st) else end_value st c)\<close>
| \<open>step (Digits, st) c =
     (if is_digit c then (Digits, st)
      else if c = CHR ''.'' then (Dot, st)
      else if c = CHR ''e'' \<or> c = CHR ''E'' then (Exp, st) else end_value st c)\<close>
| \<open>step (Dot, st) c = (if is_digit c then (Frac, st) else (Invalid, st))\<close>
| \<open>step (Frac, st) c =
     (if is_digit c then (Frac, st)
      else if c = CHR ''e'' \<or> c = CHR ''E'' then (Exp, st) else end_value st c)\<close>
| \<open>step (Exp, st) c =
     (if c = CHR ''+'' \<or> c = CHR ''-'' then (ExpSign, st)
      else if is_digit c then (ExpDigits, st) else (Invalid, st))\<close>
| \<open>step (ExpSign, st) c = (if is_digit c then (ExpDigits, st) else (Invalid, st))\<close>
| \<open>step (ExpDigits, st) c = (if is_digit c then (ExpDigits, st) else end_value st c)\<close>
| \<open>step (Lit [], st) c = (Invalid, st)\<close>
| \<open>step (Lit (x # xs), st) c =
     (if c = x then (if xs = [] then (EndValue, st) else (Lit xs, st)) else (Invalid, st))\<close>
| \<open>step (EndValue, st) c = end_value st c\<close>
| \<open>step (Invalid, st) c = (Invalid, st)\<close>

definition scan_chars :: \<open>jstate \<Rightarrow> string \<Rightarrow> jstate\<close> where
  \<open>scan_chars s cs = foldl step s cs\<close>

definition accepting :: \<open>jstate \<Rightarrow> bool\<close> where
  \<open>accepting s = (fst s \<in> {EndValue, Zero, Digits, Frac, ExpDigits} \<and> snd s = [])\<close>

definition is_json :: \<open>string \<Rightarrow> bool\<close> where
  \<open>is_json b = accepting (scan_chars (BeginValue, []) b)\<close>


text \<open>
  The shape of an error body, \<^verbatim>\<open>{"error": "<message>"}\<close>: the body is exactly the
  opening \<^verbatim>\<open>{"error": "\<close>, a message and the closing \<^verbatim>\<open>"}\<close>, where the message is
  the inside of one JSON string (no unescaped quote, no control character, no
  unfinished escape), so that the object has the single member \<^verbatim>\<open>error\<close>.
\<close>

definition error_message :: \<open>string \<Rightarrow> string\<close> where
  \<open>error_message b = take (length b - 13) (drop 11 b)\<close>

definition is_error_body :: \<open>string \<Rightarrow> bool\<close> where
  \<open>is_error_body b =
     (13 \<le> length b \<and> b = ''{"error": "'' @ error_message b @ ''"}''
      \<and> scan_chars (InString, []) (error_message b) = (InString, []))\<close>

text \<open>
  What the scanner needs of the string encoder: the characters written between the
  quotes keep it inside the string, and end outside any escape sequence.
\<close>

definition escapes_properly :: \<open>json \<Rightarrow> bool\<close> where
  \<open>escapes_properly j = (\<forall>s st. scan_chars (InString, st) (escape j s) = (InString, st))\<close>

section \<open>A reference codec\<close>

text \<open>
  A concrete stand-in for \<^verbatim>\<open>encoding/json\<close>, used where a theorem is evaluated at a
  concrete request. The decoder covers bodies that are one JSON object whose member
  names and values are strings without escape sequences: member names are matched
  to the field tags ignoring case, a later member overrides an earlier one, and other
  members with a string value are skipped. On any other body the stand-in yields the
  zero-valued Source: that is what \<^verbatim>\<open>json.Unmarshal\<close> leaves behind on a body that is
  not valid JSON; on valid JSON outside the fragment (escape sequences, values that
  are not strings) the stand-in is not meant to agree with the library, and nothing
  below is evaluated there. The encoder escapes the quote, the backslash, the control
  characters and \<^verbatim>\<open><\<close>, \<^verbatim>\<open>>\<close>, \<^verbatim>\<open>&\<close>, and copies every other byte.
\<close>

datatype jtoken = TLBrace | TRBrace | TColon | TComma | TString string

fun tokens :: \<open>string option \<Rightarrow> string \<Rightarrow> jtoken list option\<close> where
  \<open>tokens None [] = Some []\<close>
| \<open>tokens (Some acc) [] = None\<close>
| \<open>tokens None (c # cs) =
     (if is_ws c then tokens None cs
      else if c = CHR ''{'' then map_option ((#) TLBrace) (tokens None cs)
      else if c = CHR ''}'' then map_option ((#) TRBrace) (tokens None cs)
      else if c = CHR '':'' then map_option ((#) TColon) (tokens None cs)
      else if c = CHR '','' then map_option ((#) TComma) (tokens None cs)
      else if c = CHR ''"'' then tokens (Some []) cs
      else None)\<close>
| \<open>tokens (Some acc) (c # cs) =
     (if c = CHR ''"'' then map_option ((#) (TString acc)) (tokens None cs)
      else if c = CHR 0x5C \<or> (of_char c :: nat) < 32 then None
      else tokens (Some (acc @ [c])) cs)\<close>

definition fold_char :: \<open>char \<Rightarrow> char\<close> where
  \<open>fold_char c =
     (case map_of (zip ''ABCDEFGHIJKLMNOPQRSTUVWXYZ'' ''abcdefghijklmnopqrstuvwxyz'') c of
        None \<Rightarrow> c | Some l \<Rightarrow> l)\<close>

definition set_field :: \<open>string \<Rightarrow> string \<Rightarrow> Source \<Rightarrow> Source\<close> where
  \<open>set_field k v s =
     (if map fold_char k = ''id'' then s\<lparr>ID := v\<rparr>
      else if map fold_char k = ''name'' then s\<lparr>Name := v\<rparr>
      else if map fold_char k = ''url'' then s\<lparr>Url := v\<rparr>
      else s)\<close>

fun members :: \<open>jtoken list \<Rightarrow> Source \<Rightarrow> Source option\<close> where
  \<open>members [TString k, TColon, TString v, TRBrace] s = Some (set_field k v s)\<close>
| \<open>members (TString k # TColon # TString v # TComma # ts) s = members ts (set_field k v s)\<close>
| \<open>members _ s = None\<close>

definition decode_Source :: \<open>string \<Rightarrow> Source\<close> where
  \<open>decode_Source b =
     (case tokens None b of
        Some (TLBrace # ts) \<Rightarrow>
          (if ts = [TRBrace] then zero_Source
           else (case members ts zero_Source of None \<Rightarrow> zero_Source | Some s \<Rightarrow> s))
      | _ \<Rightarrow> zero_Source)\<close>


definition hex_digit :: \<open>nat \<Rightarrow> char\<close> where
  \<open>hex_digit n = ''0123456789abcdef'' ! (n mod 16)\<close>

definition escape_char :: \<open>char \<Rightarrow> string\<close> where
  \<open>escape_char c =
     (if c = CHR ''"'' \<or> c = CHR 0x5C then [CHR 0x5C, c]
      else if c = CHR 0x0A then [CHR 0x5C, CHR ''n'']
      else if c = CHR 0x0D then [CHR 0x5C, CHR ''r'']
      else if c = CHR 0x09 then [CHR 0x5C, CHR ''t'']
      else if (of_char c :: nat) < 32 \<or> c = CHR ''<'' \<or> c = CHR ''>'' \<or> c = CHR ''&''
      then [CHR 0x5C, CHR ''u'', CHR ''0'', CHR ''0'',
            hex_digit ((of_char c :: nat) div 16), hex_digit (of_char c)]
      else [c])\<close>

definition escape_string :: \<open>string \<Rightarrow> string\<close> where
  \<open>escape_string s = concat (map escape_char s)\<close>


definition std_json :: json where
  \<open>std_json = \<lparr>Unmarshal = decode_Source, escape = escape_string\<rparr>\<close>

text \<open>The status code of an outcome, when a response was returned.\<close>

fun status_of :: \<open>outcome \<Rightarrow> int option\<close> where
  \<open>status_of (Returned r) = Some (StatusCode r)\<close>
| \<open>status_of Exited = None\<close>
| \<open>status_of Panicked = None\<close>

section \<open>Evaluation and frame lemmas\<close>

lemmas handler_defs =
  handler_def handler_v2_def getHandler_def getAllHandler_def postHandler_def putHandler_def
  deleteHandler_def getDynamoDbService_def svc_Scan_def svc_GetItem_def svc_PutItem_def
  svc_DeleteItem_def index_str_def write_scope_def unauthorized_def notAllowed_def
  ok_def created_def serverError_def empty_world_def Let_def read_scope_def jwt_authorizer_def

lemmas codec_defs =
  std_json_def decode_Source_def set_field_def fold_char_def zero_Source_def is_ws_def
  marshal_Sources_def marshal_Source_def marshal_string_def escape_string_def escape_char_def

lemma getAllHandler_world:
  \<open>snd (getAllHandler j e w) = w \<or> snd (getAllHandler j e w) = w\<lparr>calls := calls w @ [Scan]\<rparr>\<close>
  by (simp add: getAllHandler_def getDynamoDbService_def svc_Scan_def split: option.splits)

lemma getHandler_world:
  \<open>snd (getHandler j e req w) = w
   \<or> snd (getHandler j e req w) = w\<lparr>calls := calls w @ [Scan]\<rparr>
   \<or> snd (getHandler j e req w) =
       w\<lparr>calls := calls w @ [GetItem (index_str (PathParameters req) ''id'')]\<rparr>\<close>
  using getAllHandler_world [of j e w]
  by (auto simp add: getHandler_def Let_def getDynamoDbService_def svc_GetItem_def
      split: option.splits)

subsection \<open>The two variants reach the same operations\<close>

lemma getHandler_cong:
  \<open>index_str (PathParameters r1) ''id'' = index_str (PathParameters r2) ''id''
   \<Longrightarrow> getHandler j e r1 w = getHandler j e r2 w\<close>
  by (simp add: getHandler_def)

lemma deleteHandler_cong:
  \<open>index_str (PathParameters r1) ''id'' = index_str (PathParameters r2) ''id''
   \<Longrightarrow> deleteHandler j e r1 w = deleteHandler j e r2 w\<close>
  by (simp add: deleteHandler_def)

lemma postHandler_cong: \<open>Body r1 = Body r2 \<Longrightarrow> postHandler j e r1 w = postHandler j e r2 w\<close>
  by (simp add: postHandler_def)

lemma putHandler_cong: \<open>Body r1 = Body r2 \<Longrightarrow> putHandler j e r1 w = putHandler j e r2 w\<close>
  by (simp add: putHandler_def)

subsection \<open>The id invariant, step by step\<close>

lemma upsert_all: \<open>P it \<Longrightarrow> list_all P rs \<Longrightarrow> list_all P (upsert it rs)\<close>
  by (induction rs) simp_all

lemma getAllHandler_table: \<open>table (snd (getAllHandler j e w)) = table w\<close>
  using getAllHandler_world [of j e w] by auto

lemma getHandler_table: \<open>table (snd (getHandler j e req w)) = table w\<close>
  using getHandler_world [of j e req w] by auto

lemma postHandler_inv:
  \<open>new_uuid e \<noteq> [] \<Longrightarrow> list_all id_nonempty (table w)
   \<Longrightarrow> list_all id_nonempty (table (snd (postHandler j e req w)))\<close>
  by (simp add: postHandler_def Let_def getDynamoDbService_def svc_PutItem_def
      upsert_all id_nonempty_def)

lemma putHandler_inv:
  \<open>ID (Unmarshal j (Body req)) \<noteq> [] \<Longrightarrow> list_all id_nonempty (table w)
   \<Longrightarrow> list_all id_nonempty (table (snd (putHandler j e req w)))\<close>
  by (simp add: putHandler_def Let_def getDynamoDbService_def svc_PutItem_def
      upsert_all id_nonempty_def)

lemma deleteHandler_inv:
  \<open>list_all id_nonempty (table w)
   \<Longrightarrow> list_all id_nonempty (table (snd (deleteHandler j e req w)))\<close>
  by (simp add: deleteHandler_def Let_def getDynamoDbService_def svc_DeleteItem_def
      getAllHandler_table list_all_iff)

lemma handler_inv:
  \<open>new_uuid e \<noteq> [] \<Longrightarrow> (HTTPMethod r = ''PUT'' \<longrightarrow> ID (Unmarshal j (Body r)) \<noteq> [])
   \<Longrightarrow> list_all id_nonempty (table w)
   \<Longrightarrow> list_all id_nonempty (table (snd (handler j e r w)))\<close>
  by (simp add: handler_def getHandler_table postHandler_inv putHandler_inv deleteHandler_inv)

lemma handler_v2_inv:
  \<open>new_uuid e \<noteq> [] \<Longrightarrow> (HTTPMethod r = ''PUT'' \<longrightarrow> ID (Unmarshal j (Body r)) \<noteq> [])
   \<Longrightarrow> list_all id_nonempty (table w)
   \<Longrightarrow> list_all id_nonempty (table (snd (handler_v2 j e r w)))\<close>
  by (simp add: handler_v2_def getHandler_table postHandler_inv putHandler_inv
      deleteHandler_inv split: option.splits)

lemma run_inv:
  \<open>list_all id_nonempty (table w)
   \<Longrightarrow> \<forall>(e, r) \<in> set steps. new_uuid e \<noteq> [] \<and> (HTTPMethod r = ''PUT'' \<longrightarrow> ID (Unmarshal j (Body r)) \<noteq> [])
   \<Longrightarrow> list_all id_nonempty (table (run j steps w))\<close>
proof (induction steps arbitrary: w)
  case Nil
  then show ?case by simp
next
  case (Cons a steps)
  obtain e r where a: \<open>a = (e, r)\<close> by (cases a)
  from Cons.prems a have \<open>list_all id_nonempty (table (snd (handler j e r w)))\<close>
    by (simp add: handler_inv)
  with Cons.IH [of \<open>snd (handler j e r w)\<close>] Cons.prems(2) a show ?case by simp
qed

lemma run_v2_inv:
  \<open>list_all id_nonempty (table w)
   \<Longrightarrow> \<forall>(e, r) \<in> set steps. new_uuid e \<noteq> [] \<and> (HTTPMethod r = ''PUT'' \<longrightarrow> ID (Unmarshal j (Body r)) \<noteq> [])
   \<Longrightarrow> list_all id_nonempty (table (run_v2 j steps w))\<close>
proof (induction steps arbitrary: w)
  case Nil
  then show ?case by simp
next
  case (Cons a steps)
  obtain e r where a: \<open>a = (e, r)\<close> by (cases a)
  from Cons.prems a have \<open>list_all id_nonempty (table (snd (handler_v2 j e r w)))\<close>
    by (simp add: handler_v2_inv)
  with Cons.IH [of \<open>snd (handler_v2 j e r w)\<close>] Cons.prems(2) a show ?case by simp
qed

subsection \<open>Encoded bodies are JSON texts\<close>

lemma scan_Nil: \<open>scan_chars s [] = s\<close>
  by (simp add: scan_chars_def)

lemma scan_Cons: \<open>scan_chars s (c # cs) = scan_chars (step s c) cs\<close>
  by (simp add: scan_chars_def)

lemma scan_append: \<open>scan_chars s (xs @ ys) = scan_chars (scan_chars s xs) ys\<close>
  by (simp add: scan_chars_def)

lemmas scan_simps = scan_Nil scan_Cons scan_append is_ws_def is_digit_def is_hex_def

lemma scan_marshal_string:
  assumes \<open>escapes_properly j\<close>
  shows \<open>scan_chars (InString, st) (escape j s @ CHR 0x22 # rest) = scan_chars (EndValue, st) rest\<close>
  using assms by (simp add: escapes_properly_def scan_append scan_Cons)

lemma scan_marshal_Source:
  assumes \<open>escapes_properly j\<close> and \<open>m = BeginValue \<or> m = BeginValueOrEmpty\<close>
  shows \<open>scan_chars (m, st) (marshal_Source j s @ rest) = scan_chars (EndValue, st) rest\<close>
  using assms(2)
  by (auto simp add: marshal_Source_def marshal_string_def scan_Cons is_ws_def is_digit_def
      scan_marshal_string [OF assms(1)])

lemma scan_marshal_elems:
  assumes \<open>escapes_properly j\<close>
  shows \<open>ss \<noteq> [] \<Longrightarrow> m = BeginValue \<or> m = BeginValueOrEmpty
    \<Longrightarrow> scan_chars (m, InArray # st) (marshal_elems j ss @ rest) = scan_chars (EndValue, InArray # st) rest\<close>
proof (induction ss arbitrary: m)
  case Nil
  then show ?case by simp
next
  case (Cons s ss)
  show ?case
  proof (cases ss)
    case Nil
    then show ?thesis using scan_marshal_Source [OF assms Cons.prems(2)] by simp
  next
    case (Cons v va)
    have \<open>scan_chars (m, InArray # st) (marshal_elems j (s # v # va) @ rest)
        = scan_chars (EndValue, InArray # st) (CHR '','' # marshal_elems j (v # va) @ rest)\<close>
      using scan_marshal_Source [OF assms Cons.prems(2)] by simp
    also have \<open>\<dots> = scan_chars (BeginValue, InArray # st) (marshal_elems j (v # va) @ rest)\<close>
      by (simp add: scan_Cons is_ws_def)
    also have \<open>\<dots> = scan_chars (EndValue, InArray # st) rest\<close>
      using Cons.IH [of BeginValue] Cons by simp
    finally show ?thesis using Cons by simp
  qed
qed

lemma is_json_marshal_Source:
  assumes \<open>escapes_properly j\<close>
  shows \<open>is_json (marshal_Source j s)\<close>
  using scan_marshal_Source [OF assms, of BeginValue \<open>[]\<close> s \<open>[]\<close>]
  by (simp add: is_json_def accepting_def scan_Nil)

lemma is_json_marshal_Sources:
  assumes \<open>escapes_properly j\<close>
  shows \<open>is_json (marshal_Sources j ss)\<close>
proof (cases \<open>ss = []\<close>)
  case True
  then show ?thesis
    by (simp add: is_json_def marshal_Sources_def accepting_def scan_Cons scan_Nil is_ws_def is_digit_def)
next
  case False
  have \<open>scan_chars (BeginValue, []) (marshal_Sources j ss)
      = scan_chars (BeginValueOrEmpty, [InArray]) (marshal_elems j ss @ '']'')\<close>
    by (simp add: marshal_Sources_def scan_Cons is_ws_def)
  also have \<open>\<dots> = scan_chars (EndValue, [InArray]) '']''\<close>
    using scan_marshal_elems [OF assms False, of BeginValueOrEmpty \<open>[]\<close> \<open>'']''\<close>] by simp
  also have \<open>\<dots> = (EndValue, [])\<close>
    by (simp add: scan_Cons scan_Nil is_ws_def)
  finally show ?thesis by (simp add: is_json_def accepting_def)
qed

lemma hex_digit_is_hex: \<open>is_hex (hex_digit n)\<close>
proof -
  have \<open>n mod 16 \<in> {0,1,2,3,4,5,6,7,8,9,10,11,12,13,14,15}\<close> by simp presburger
  then show ?thesis
    unfolding hex_digit_def is_hex_def by (elim insertE emptyE) simp_all
qed

lemma scan_escape_char: \<open>scan_chars (InString, st) (escape_char c) = (InString, st)\<close>
  using hex_digit_is_hex
  by (auto simp add: scan_chars_def escape_char_def is_hex_def)

lemma scan_escape_string: \<open>scan_chars (InString, st) (escape_string s) = (InString, st)\<close>
  by (induction s) (simp_all add: escape_string_def scan_Nil scan_append scan_escape_char)

lemma std_json_escapes: \<open>escapes_properly std_json\<close>
  by (simp add: escapes_properly_def std_json_def scan_escape_string)

lemma is_error_body_iff:
  \<open>is_error_body b \<longleftrightarrow>
     (\<exists>m. b = ''{"error": "'' @ m @ ''"}'' \<and> scan_chars (InString, []) m = (InString, []))\<close>
proof
  assume \<open>is_error_body b\<close>
  then show \<open>\<exists>m. b = ''{"error": "'' @ m @ ''"}'' \<and> scan_chars (InString, []) m = (InString, [])\<close>
    unfolding is_error_body_def by blast
next
  assume \<open>\<exists>m. b = ''{"error": "'' @ m @ ''"}'' \<and> scan_chars (InString, []) m = (InString, [])\<close>
  then obtain m where b: \<open>b = ''{"error": "'' @ m @ ''"}''\<close>
    and m: \<open>scan_chars (InString, []) m = (InString, [])\<close> by blast
  have \<open>error_message b = m\<close>
    by (simp add: b error_message_def)
  with b m show \<open>is_error_body b\<close>
    by (simp add: is_error_body_def)
qed

lemma is_error_body_single_member:
  \<open>\<not> is_error_body ''{"error": "a", "x": "b"}''\<close>
  by (simp add: is_error_body_def error_message_def scan_simps)

lemma error_bodies:
  \<open>is_error_body ''{"error": "Failed to retrieve sources"}'' \<and> is_json ''{"error": "Failed to retrieve sources"}''\<close>
  \<open>is_error_body ''{"error": "Failed to retrieve source"}'' \<and> is_json ''{"error": "Failed to retrieve source"}''\<close>
  \<open>is_error_body ''{"error": "Failed to create source"}'' \<and> is_json ''{"error": "Failed to create source"}''\<close>
  \<open>is_error_body ''{"error": "Failed to update source"}'' \<and> is_json ''{"error": "Failed to update source"}''\<close>
  \<open>is_error_body ''{"error": "Failed to store source"}'' \<and> is_json ''{"error": "Failed to store source"}''\<close>
  \<open>is_error_body ''{"error": "Failed to delete source"}'' \<and> is_json ''{"error": "Failed to delete source"}''\<close>
  \<open>is_error_body ''{"error": "not found"}'' \<and> is_json ''{"error": "not found"}''\<close>
  \<open>is_error_body ''{"error": "Unauthorised"}'' \<and> is_json ''{"error": "Unauthorised"}''\<close>
  \<open>is_error_body ''{"error": "Unsupported HTTP method"}'' \<and> is_json ''{"error": "Unsupported HTTP method"}''\<close>
  by (simp_all add: is_error_body_def error_message_def is_json_def accepting_def scan_simps)

subsection \<open>Bodies of the operations\<close>

lemma getAllHandler_body:
  assumes \<open>escapes_properly j\<close> and \<open>fst (getAllHandler j e w) = Returned r\<close>
  shows \<open>is_json (RespBody r) \<and> (StatusCode r \<noteq> 200 \<longrightarrow> is_error_body (RespBody r))\<close>
  using assms(2) error_bodies is_json_marshal_Sources [OF assms(1)]
  by (auto simp add: getAllHandler_def getDynamoDbService_def svc_Scan_def serverError_def ok_def
      split: option.splits if_splits)

lemma getHandler_body:
  assumes \<open>escapes_properly j\<close> and \<open>fst (getHandler j e req w) = Returned r\<close>
  shows \<open>is_json (RespBody r) \<and> (StatusCode r \<noteq> 200 \<longrightarrow> is_error_body (RespBody r))\<close>
proof (cases \<open>index_str (PathParameters req) ''id'' = []\<close>)
  case True
  with assms(2) getAllHandler_body [OF assms(1), of e w r] show ?thesis
    by (simp add: getHandler_def)
next
  case False
  with assms(2) error_bodies is_json_marshal_Source [OF assms(1)] show ?thesis
    by (auto simp add: getHandler_def Let_def getDynamoDbService_def svc_GetItem_def
        serverError_def ok_def split: option.splits if_splits)
qed

lemma postHandler_body:
  assumes \<open>fst (postHandler j e req w) = Returned r\<close> and \<open>StatusCode r \<noteq> 201\<close>
  shows \<open>is_json (RespBody r) \<and> is_error_body (RespBody r)\<close>
  using assms error_bodies
  by (auto simp add: postHandler_def Let_def getDynamoDbService_def svc_PutItem_def serverError_def
      created_def split: option.splits if_splits)

lemma putHandler_body:
  assumes \<open>fst (putHandler j e req w) = Returned r\<close> and \<open>StatusCode r \<noteq> 200\<close>
  shows \<open>is_json (RespBody r) \<and> is_error_body (RespBody r)\<close>
  using assms error_bodies
  by (auto simp add: putHandler_def Let_def getDynamoDbService_def svc_PutItem_def serverError_def
      ok_def split: option.splits if_splits)

lemma deleteHandler_body:
  assumes \<open>escapes_properly j\<close> and \<open>fst (deleteHandler j e req w) = Returned r\<close>
    and \<open>StatusCode r \<noteq> 200\<close>
  shows \<open>is_json (RespBody r) \<and> is_error_body (RespBody r)\<close>
proof (cases \<open>index_str (PathParameters req) ''id'' = []\<close>)
  case True
  with assms getAllHandler_body [OF assms(1), of e w r] show ?thesis
    by (simp add: deleteHandler_def)
next
  case False
  with assms(2,3) error_bodies show ?thesis
    by (auto simp add: deleteHandler_def Let_def getDynamoDbService_def svc_DeleteItem_def
        serverError_def ok_def split: option.splits if_splits)
qed

subsection \<open>How the delete operation is reached\<close>

lemma handler_delete:
  \<open>HTTPMethod r = ''DELETE'' \<Longrightarrow> handler j e r w = deleteHandler j e r w\<close>
  by (simp add: handler_def)

lemma handler_v2_delete:
  \<open>HTTPMethod r = ''DELETE'' \<Longrightarrow> read_scope r = Some write_scope
   \<Longrightarrow> handler_v2 j e r w = deleteHandler j e r w\<close>
  by (simp add: handler_v2_def)

section \<open>Claims\<close>

subsection \<open>C1\<close>

text \<open>
  C1, evaluated on the code. A create request whose body has no id (and one whose body
  has the id \<^verbatim>\<open>mine\<close>) succeeds with status 201; the record is stored under the
  generated identifier, but the response body is the id field decoded from the
  request body (\<^verbatim>\<open>created(source.ID)\<close>): empty in the first case, the caller's own id in
  the second, and never the generated identifier.
\<close>

theorem create_returns_request_id:
  \<open>handler_v2 std_json
     \<lparr>cfg_err = False, svc_err = False, new_uuid = ''3b241101-e2bb-4255-8caf-4136c566a962''\<rparr>
     \<lparr>HTTPMethod = ''POST'', PathParameters = Map.empty,
      Body = ''{"name":"rockyou","url":"https://example.com/rockyou.txt"}'',
      Authorizer = jwt_authorizer [''scope'' \<mapsto> ''https://wordlist.gaul.tech/write'']\<rparr>
     empty_world
   = (Returned \<lparr>StatusCode = 201, RespBody = []\<rparr>,
      \<lparr>table = [[''id'' \<mapsto> AttributeValueMemberS ''3b241101-e2bb-4255-8caf-4136c566a962'',
                  ''name'' \<mapsto> AttributeValueMemberS ''rockyou'',
                  ''url'' \<mapsto> AttributeValueMemberS ''https://example.com/rockyou.txt'']],
       calls = [PutItem [''id'' \<mapsto> AttributeValueMemberS ''3b241101-e2bb-4255-8caf-4136c566a962'',
                  ''name'' \<mapsto> AttributeValueMemberS ''rockyou'',
                  ''url'' \<mapsto> AttributeValueMemberS ''https://example.com/rockyou.txt'']]\<rparr>)
   \<and> fst (handler std_json
     \<lparr>cfg_err = False, svc_err = False, new_uuid = ''3b241101-e2bb-4255-8caf-4136c566a962''\<rparr>
     \<lparr>HTTPMethod = ''POST'', PathParameters = Map.empty,
      Body = ''{"id":"mine","name":"rockyou","url":"https://example.com/rockyou.txt"}''\<rparr>
     empty_world)
   = Returned \<lparr>StatusCode = 201, RespBody = ''mine''\<rparr>\<close>
  by (simp add: handler_defs codec_defs)

subsection \<open>C2\<close>

text \<open>
  C2, counterexample. The legacy handler has no scope check: a POST that carries no
  scope claim is answered with status 201 and issues one put against the table. In
  the v2 handler, a POST whose event has no authorizer context gets no 401: reading
  the claims panics.
\<close>

theorem scope_check_counterexample:
  \<open>handler std_json \<lparr>cfg_err = False, svc_err = False, new_uuid = ''u1''\<rparr>
     \<lparr>HTTPMethod = ''POST'', PathParameters = Map.empty, Body = ''{"name":"n","url":"u"}''\<rparr>
     empty_world
   = (Returned \<lparr>StatusCode = 201, RespBody = []\<rparr>,
      \<lparr>table = [[''id'' \<mapsto> AttributeValueMemberS ''u1'', ''name'' \<mapsto> AttributeValueMemberS ''n'',
                  ''url'' \<mapsto> AttributeValueMemberS ''u'']],
       calls = [PutItem [''id'' \<mapsto> AttributeValueMemberS ''u1'', ''name'' \<mapsto> AttributeValueMemberS ''n'',
                  ''url'' \<mapsto> AttributeValueMemberS ''u'']]\<rparr>)
   \<and> handler_v2 std_json \<lparr>cfg_err = False, svc_err = False, new_uuid = ''u1''\<rparr>
     \<lparr>HTTPMethod = ''POST'', PathParameters = Map.empty, Body = ''{"name":"n","url":"u"}'',
      Authorizer = None\<rparr>
     empty_world
   = (Panicked, empty_world)\<close>
  by (simp add: handler_defs codec_defs)

text \<open>
  C2, as amended. In the v2 handler, every non-GET request whose event carries a JWT
  authorizer context, and whose scope claim there is absent or differs from the write
  scope, is answered with status 401 and the structured error body, and leaves the
  table and the list of issued calls untouched; no non-GET request without the write
  scope changes the table or issues a call; every GET request goes straight to the
  read operation, whatever its authorizer context is.
\<close>

theorem scope_check_v2:
  \<open>(HTTPMethod req \<noteq> ''GET'' \<and> read_scope req = Some s
        \<and> s \<noteq> ''https://wordlist.gaul.tech/write''
      \<longrightarrow> handler_v2 j e req w =
            (Returned \<lparr>StatusCode = 401, RespBody = ''{"error": "Unauthorised"}''\<rparr>, w)
          \<and> is_error_body ''{"error": "Unauthorised"}'')
   \<and> (HTTPMethod req \<noteq> ''GET'' \<and> read_scope req \<noteq> Some ''https://wordlist.gaul.tech/write''
      \<longrightarrow> snd (handler_v2 j e req w) = w)
   \<and> (HTTPMethod req = ''GET''
      \<longrightarrow> handler_v2 j e req w = getHandler j e req w
        \<and> handler_v2 j e (req\<lparr>Authorizer := a\<rparr>) w = handler_v2 j e req w)\<close>
proof -
  have body: \<open>is_error_body ''{"error": "Unauthorised"}''\<close>
    by (simp add: is_error_body_def error_message_def scan_simps)
  show ?thesis
    using body
    by (auto simp add: handler_v2_def write_scope_def unauthorized_def getHandler_def
        split: option.splits)
qed

text \<open>
  C2, witness: a POST with a read-only scope, and a GET whose event has no authorizer
  context.
\<close>

theorem scope_check_v2_witness:
  \<open>handler_v2 std_json \<lparr>cfg_err = False, svc_err = False, new_uuid = ''u1''\<rparr>
     \<lparr>HTTPMethod = ''POST'', PathParameters = Map.empty, Body = ''{"name":"n","url":"u"}'',
      Authorizer = jwt_authorizer [''scope'' \<mapsto> ''https://wordlist.gaul.tech/read'']\<rparr> empty_world
   = (Returned \<lparr>StatusCode = 401, RespBody = ''{"error": "Unauthorised"}''\<rparr>, empty_world)
   \<and> handler_v2 std_json \<lparr>cfg_err = False, svc_err = False, new_uuid = ''u1''\<rparr>
     \<lparr>HTTPMethod = ''GET'', PathParameters = Map.empty, Body = [], Authorizer = None\<rparr> empty_world
   = (Returned \<lparr>StatusCode = 200, RespBody = ''[]''\<rparr>, \<lparr>table = [], calls = [Scan]\<rparr>)\<close>
  using scope_check_v2 [of
      \<open>\<lparr>HTTPMethod = ''POST'', PathParameters = Map.empty, Body = ''{"name":"n","url":"u"}'',
        Authorizer = jwt_authorizer [''scope'' \<mapsto> ''https://wordlist.gaul.tech/read'']\<rparr>\<close>
      \<open>''https://wordlist.gaul.tech/read''\<close>
      std_json \<open>\<lparr>cfg_err = False, svc_err = False, new_uuid = ''u1''\<rparr>\<close> empty_world]
    scope_check_v2 [of
      \<open>\<lparr>HTTPMethod = ''GET'', PathParameters = Map.empty, Body = [], Authorizer = None\<rparr>\<close>
      _ std_json \<open>\<lparr>cfg_err = False, svc_err = False, new_uuid = ''u1''\<rparr>\<close> empty_world]
  by (simp add: handler_defs codec_defs)

subsection \<open>C3\<close>

text \<open>
  C3, counterexample. The variants differ on two requests: a POST without a scope claim is
  carried out by the legacy handler (status 201) and refused by the v2 handler (status
  401); a PATCH with the write scope gets status 405 from both, with a plain-text body
  from the legacy handler and a JSON error body from the v2 handler.
\<close>

theorem variants_differ:
  \<open>fst (handler std_json \<lparr>cfg_err = False, svc_err = False, new_uuid = ''u1''\<rparr>
        \<lparr>HTTPMethod = ''POST'', PathParameters = Map.empty, Body = ''{"name":"n","url":"u"}''\<rparr>
        empty_world)
   = Returned \<lparr>StatusCode = 201, RespBody = []\<rparr>
   \<and> fst (handler_v2 std_json \<lparr>cfg_err = False, svc_err = False, new_uuid = ''u1''\<rparr>
        \<lparr>HTTPMethod = ''POST'', PathParameters = Map.empty, Body = ''{"name":"n","url":"u"}'',
         Authorizer = jwt_authorizer Map.empty\<rparr>
        empty_world)
   = Returned \<lparr>StatusCode = 401, RespBody = ''{"error": "Unauthorised"}''\<rparr>
   \<and> fst (handler std_json \<lparr>cfg_err = False, svc_err = False, new_uuid = ''u1''\<rparr>
        \<lparr>HTTPMethod = ''PATCH'', PathParameters = Map.empty, Body = []\<rparr>
        empty_world)
   = Returned \<lparr>StatusCode = 405, RespBody = ''unsupported http method''\<rparr>
   \<and> fst (handler_v2 std_json \<lparr>cfg_err = False, svc_err = False, new_uuid = ''u1''\<rparr>
        \<lparr>HTTPMethod = ''PATCH'', PathParameters = Map.empty, Body = [],
         Authorizer = jwt_authorizer [''scope'' \<mapsto> ''https://wordlist.gaul.tech/write'']\<rparr>
        empty_world)
   = Returned \<lparr>StatusCode = 405, RespBody = ''{"error": "Unsupported HTTP method"}''\<rparr>\<close>
  by (simp add: handler_defs codec_defs)

text \<open>
  C3, as amended. For two requests with the same method, path id and body, where the
  method is GET or the v2 request carries the write scope in its JWT claims: both
  variants leave the same table and call list and give the same status code; for GET, POST, PUT and DELETE
  they give the same outcome altogether; for any other method both answer 405, the
  legacy handler with the plain text \<^verbatim>\<open>unsupported http method\<close> and the v2 handler
  with a JSON error body.
\<close>

theorem variants_agree:
  assumes \<open>HTTPMethod r1 = HTTPMethod r2\<close>
    and \<open>index_str (PathParameters r1) ''id'' = index_str (PathParameters r2) ''id''\<close>
    and \<open>Body r1 = Body r2\<close>
    and \<open>HTTPMethod r2 = ''GET'' \<or> read_scope r2 = Some ''https://wordlist.gaul.tech/write''\<close>
  shows \<open>snd (handler j e r1 w) = snd (handler_v2 j e r2 w)
     \<and> status_of (fst (handler j e r1 w)) = status_of (fst (handler_v2 j e r2 w))
     \<and> (HTTPMethod r2 \<in> {''GET'', ''POST'', ''PUT'', ''DELETE''}
          \<longrightarrow> handler j e r1 w = handler_v2 j e r2 w)
     \<and> (HTTPMethod r2 \<notin> {''GET'', ''POST'', ''PUT'', ''DELETE''}
          \<longrightarrow> fst (handler j e r1 w) = Returned \<lparr>StatusCode = 405, RespBody = ''unsupported http method''\<rparr>
            \<and> fst (handler_v2 j e r2 w) =
                Returned \<lparr>StatusCode = 405, RespBody = ''{"error": "Unsupported HTTP method"}''\<rparr>)\<close>
proof -
  have sup: \<open>handler j e r1 w = handler_v2 j e r2 w\<close>
    if \<open>HTTPMethod r2 \<in> {''GET'', ''POST'', ''PUT'', ''DELETE''}\<close>
    using that assms getHandler_cong [OF assms(2), of j e w]
      deleteHandler_cong [OF assms(2), of j e w]
      postHandler_cong [OF assms(3), of j e w] putHandler_cong [OF assms(3), of j e w]
    by (auto simp add: handler_def handler_v2_def write_scope_def)
  have unsup: \<open>handler j e r1 w =
        (Returned \<lparr>StatusCode = 405, RespBody = ''unsupported http method''\<rparr>, w)
      \<and> handler_v2 j e r2 w =
        (Returned \<lparr>StatusCode = 405, RespBody = ''{"error": "Unsupported HTTP method"}''\<rparr>, w)\<close>
    if \<open>HTTPMethod r2 \<notin> {''GET'', ''POST'', ''PUT'', ''DELETE''}\<close>
    using that assms
    by (simp add: handler_def handler_v2_def write_scope_def notAllowed_def)
  show ?thesis
  proof (cases \<open>HTTPMethod r2 \<in> {''GET'', ''POST'', ''PUT'', ''DELETE''}\<close>)
    case True
    with sup show ?thesis by simp
  next
    case False
    with unsup show ?thesis by simp
  qed
qed

text \<open>
  C3, witness: an authorized PUT, whose path id is missing in one event and empty in the
  other.
\<close>

theorem variants_agree_witness:
  \<open>handler std_json \<lparr>cfg_err = False, svc_err = False, new_uuid = ''u1''\<rparr>
      \<lparr>HTTPMethod = ''PUT'', PathParameters = Map.empty, Body = ''{"id":"a","name":"n","url":"u"}''\<rparr>
      empty_world
   = handler_v2 std_json \<lparr>cfg_err = False, svc_err = False, new_uuid = ''u1''\<rparr>
      \<lparr>HTTPMethod = ''PUT'', PathParameters = [''id'' \<mapsto> []], Body = ''{"id":"a","name":"n","url":"u"}'',
       Authorizer = jwt_authorizer [''scope'' \<mapsto> ''https://wordlist.gaul.tech/write'']\<rparr>
      empty_world
   \<and> fst (handler std_json \<lparr>cfg_err = False, svc_err = False, new_uuid = ''u1''\<rparr>
      \<lparr>HTTPMethod = ''PUT'', PathParameters = Map.empty, Body = ''{"id":"a","name":"n","url":"u"}''\<rparr>
      empty_world) = Returned \<lparr>StatusCode = 200, RespBody = ''a''\<rparr>\<close>
  using variants_agree [of
      \<open>\<lparr>HTTPMethod = ''PUT'', PathParameters = Map.empty, Body = ''{"id":"a","name":"n","url":"u"}''\<rparr>\<close>
      \<open>\<lparr>HTTPMethod = ''PUT'', PathParameters = [''id'' \<mapsto> []], Body = ''{"id":"a","name":"n","url":"u"}'',
       Authorizer = jwt_authorizer [''scope'' \<mapsto> ''https://wordlist.gaul.tech/write'']\<rparr>\<close>
      std_json \<open>\<lparr>cfg_err = False, svc_err = False, new_uuid = ''u1''\<rparr>\<close> empty_world]
  by (simp add: index_str_def) (simp add: handler_defs codec_defs)

subsection \<open>C4\<close>

text \<open>
  C4, counterexample. In the v2 handler the scope check comes before the dispatch on the
  method: a PATCH whose JWT claims have no scope is answered with status 401, not 405.
\<close>

theorem unsupported_method_counterexample:
  \<open>handler_v2 std_json \<lparr>cfg_err = False, svc_err = False, new_uuid = ''u1''\<rparr>
     \<lparr>HTTPMethod = ''PATCH'', PathParameters = Map.empty, Body = [], Authorizer = jwt_authorizer Map.empty\<rparr>
     empty_world
   = (Returned \<lparr>StatusCode = 401, RespBody = ''{"error": "Unauthorised"}''\<rparr>, empty_world)\<close>
  by (simp add: handler_defs)

text \<open>
  C4, as amended. A request whose method is none of GET, POST, PUT, DELETE is answered
  with status 405 by the legacy handler whatever its authorization state, and by the v2
  handler when the scope claim of its JWT authorizer context is the write scope; when
  that context carries another scope or none, the v2 handler answers 401. Nothing is
  read from or written to the table in either case.
\<close>

theorem unsupported_method:
  assumes \<open>HTTPMethod r1 \<notin> {''GET'', ''POST'', ''PUT'', ''DELETE''}\<close>
    and \<open>HTTPMethod r2 \<notin> {''GET'', ''POST'', ''PUT'', ''DELETE''}\<close>
    and \<open>read_scope r2 = Some s\<close>
  shows \<open>handler j e r1 w = (Returned \<lparr>StatusCode = 405, RespBody = ''unsupported http method''\<rparr>, w)
     \<and> handler_v2 j e r2 w =
        (if s = ''https://wordlist.gaul.tech/write''
         then (Returned \<lparr>StatusCode = 405, RespBody = ''{"error": "Unsupported HTTP method"}''\<rparr>, w)
         else (Returned \<lparr>StatusCode = 401, RespBody = ''{"error": "Unauthorised"}''\<rparr>, w))\<close>
  using assms
  by (simp add: handler_def handler_v2_def write_scope_def notAllowed_def unauthorized_def)

text \<open>
  C4, witness: a PATCH request, with failing configuration and table.
\<close>

theorem unsupported_method_witness:
  \<open>handler std_json \<lparr>cfg_err = True, svc_err = True, new_uuid = []\<rparr>
     \<lparr>HTTPMethod = ''PATCH'', PathParameters = [''id'' \<mapsto> ''a''], Body = ''{}''\<rparr> empty_world
   = (Returned \<lparr>StatusCode = 405, RespBody = ''unsupported http method''\<rparr>, empty_world)
   \<and> handler_v2 std_json \<lparr>cfg_err = True, svc_err = True, new_uuid = []\<rparr>
     \<lparr>HTTPMethod = ''PATCH'', PathParameters = [''id'' \<mapsto> ''a''], Body = ''{}'',
      Authorizer = jwt_authorizer [''scope'' \<mapsto> ''https://wordlist.gaul.tech/write'']\<rparr> empty_world
   = (Returned \<lparr>StatusCode = 405, RespBody = ''{"error": "Unsupported HTTP method"}''\<rparr>, empty_world)\<close>
  using unsupported_method [of
      \<open>\<lparr>HTTPMethod = ''PATCH'', PathParameters = [''id'' \<mapsto> ''a''], Body = ''{}''\<rparr>\<close>
      \<open>\<lparr>HTTPMethod = ''PATCH'', PathParameters = [''id'' \<mapsto> ''a''], Body = ''{}'',
        Authorizer = jwt_authorizer [''scope'' \<mapsto> ''https://wordlist.gaul.tech/write'']\<rparr>\<close>
      \<open>''https://wordlist.gaul.tech/write''\<close>
      std_json \<open>\<lparr>cfg_err = True, svc_err = True, new_uuid = []\<rparr>\<close> empty_world]
  by (simp add: index_str_def read_scope_def jwt_authorizer_def)

subsection \<open>C5\<close>

text \<open>
  C5, counterexample. The 405 body of the legacy handler is the plain text
  \<^verbatim>\<open>unsupported http method\<close>: neither of the error shape nor JSON. The body of a
  successful delete is the bare id (\<^verbatim>\<open>ok(id)\<close>), here \<^verbatim>\<open>abc\<close>, which is not JSON.
\<close>

theorem bodies_counterexample:
  \<open>fst (handler std_json \<lparr>cfg_err = False, svc_err = False, new_uuid = ''u1''\<rparr>
        \<lparr>HTTPMethod = ''PATCH'', PathParameters = Map.empty, Body = []\<rparr> empty_world)
   = Returned \<lparr>StatusCode = 405, RespBody = ''unsupported http method''\<rparr>
   \<and> \<not> is_error_body ''unsupported http method''
   \<and> \<not> is_json ''unsupported http method''
   \<and> fst (handler_v2 std_json \<lparr>cfg_err = False, svc_err = False, new_uuid = ''u1''\<rparr>
        \<lparr>HTTPMethod = ''DELETE'', PathParameters = [''id'' \<mapsto> ''abc''], Body = [],
         Authorizer = jwt_authorizer [''scope'' \<mapsto> ''https://wordlist.gaul.tech/write'']\<rparr> empty_world)
   = Returned \<lparr>StatusCode = 200, RespBody = ''abc''\<rparr>
   \<and> \<not> is_json ''abc''\<close>
  by (simp add: handler_defs is_error_body_def error_message_def is_json_def accepting_def
      scan_simps)

text \<open>
  C5, as amended. With a string encoder that escapes properly: every returned error
  response with status 401, 404 or 500, and in the v2 variant also 405, has a body of
  the shape \<^verbatim>\<open>{"error": "<message>"}\<close> that is valid JSON; and the body of every
  response to a GET request is valid JSON.
\<close>

theorem bodies_are_json:
  assumes \<open>escapes_properly j\<close>
  shows \<open>(fst (handler_v2 j e r2 w) = Returned r \<longrightarrow>
        (StatusCode r \<in> {401, 404, 405, 500} \<longrightarrow> is_error_body (RespBody r) \<and> is_json (RespBody r))
        \<and> (HTTPMethod r2 = ''GET'' \<longrightarrow> is_json (RespBody r)))
     \<and> (fst (handler j e r1 w) = Returned r' \<longrightarrow>
        (StatusCode r' \<in> {401, 404, 500} \<longrightarrow> is_error_body (RespBody r') \<and> is_json (RespBody r'))
        \<and> (HTTPMethod r1 = ''GET'' \<longrightarrow> is_json (RespBody r')))\<close>
proof -
  have v2: \<open>(StatusCode r \<in> {401, 404, 405, 500} \<longrightarrow> is_error_body (RespBody r) \<and> is_json (RespBody r))
        \<and> (HTTPMethod r2 = ''GET'' \<longrightarrow> is_json (RespBody r))\<close>
    if ret: \<open>fst (handler_v2 j e r2 w) = Returned r\<close>
  proof (cases \<open>HTTPMethod r2 = ''GET''\<close>)
    case True
    with ret getHandler_body [OF assms, of e r2 w r] show ?thesis
      by (auto simp add: handler_v2_def)
  next
    case False
    with ret error_bodies postHandler_body [of j e r2 w r] putHandler_body [of j e r2 w r]
      deleteHandler_body [OF assms, of e r2 w r]
    show ?thesis
      by (auto simp add: handler_v2_def unauthorized_def notAllowed_def
          split: if_splits option.splits)
  qed
  have v1: \<open>(StatusCode r' \<in> {401, 404, 500} \<longrightarrow> is_error_body (RespBody r') \<and> is_json (RespBody r'))
        \<and> (HTTPMethod r1 = ''GET'' \<longrightarrow> is_json (RespBody r'))\<close>
    if ret: \<open>fst (handler j e r1 w) = Returned r'\<close>
  proof (cases \<open>HTTPMethod r1 = ''GET''\<close>)
    case True
    with ret getHandler_body [OF assms, of e r1 w r'] show ?thesis
      by (auto simp add: handler_def)
  next
    case False
    with ret postHandler_body [of j e r1 w r'] putHandler_body [of j e r1 w r']
      deleteHandler_body [OF assms, of e r1 w r']
    show ?thesis
      by (auto simp add: handler_def split: if_splits)
  qed
  from v1 v2 show ?thesis by blast
qed

text \<open>
  C5, witness: a get by id whose record needs escaping, and a get by id that finds
  nothing.
\<close>

theorem bodies_are_json_witness:
  \<open>fst (handler_v2 std_json \<lparr>cfg_err = False, svc_err = False, new_uuid = ''u1''\<rparr>
        \<lparr>HTTPMethod = ''GET'', PathParameters = [''id'' \<mapsto> ''a''], Body = [], Authorizer = jwt_authorizer Map.empty\<rparr>
        \<lparr>table = [[''id'' \<mapsto> AttributeValueMemberS ''a'', ''name'' \<mapsto> AttributeValueMemberS ''x"y'',
                    ''url'' \<mapsto> AttributeValueMemberS ''u'']], calls = []\<rparr>)
   = Returned \<lparr>StatusCode = 200, RespBody = ''{"id":"a","name":"x'' @ [CHR 0x5C] @ ''"y","url":"u"}''\<rparr>
   \<and> is_json (''{"id":"a","name":"x'' @ [CHR 0x5C] @ ''"y","url":"u"}'')
   \<and> fst (handler std_json \<lparr>cfg_err = False, svc_err = False, new_uuid = ''u1''\<rparr>
        \<lparr>HTTPMethod = ''GET'', PathParameters = [''id'' \<mapsto> ''b''], Body = []\<rparr>
        \<lparr>table = [[''id'' \<mapsto> AttributeValueMemberS ''a'', ''name'' \<mapsto> AttributeValueMemberS ''x"y'',
                    ''url'' \<mapsto> AttributeValueMemberS ''u'']], calls = []\<rparr>)
   = Returned \<lparr>StatusCode = 404, RespBody = ''{"error": "not found"}''\<rparr>
   \<and> is_error_body ''{"error": "not found"}''\<close>
  using bodies_are_json [OF std_json_escapes, of
      \<open>\<lparr>cfg_err = False, svc_err = False, new_uuid = ''u1''\<rparr>\<close>
      \<open>\<lparr>HTTPMethod = ''GET'', PathParameters = [''id'' \<mapsto> ''a''], Body = [], Authorizer = jwt_authorizer Map.empty\<rparr>\<close>
      \<open>\<lparr>table = [[''id'' \<mapsto> AttributeValueMemberS ''a'', ''name'' \<mapsto> AttributeValueMemberS ''x"y'',
                    ''url'' \<mapsto> AttributeValueMemberS ''u'']], calls = []\<rparr>\<close>
      \<open>\<lparr>StatusCode = 200, RespBody = ''{"id":"a","name":"x'' @ [CHR 0x5C] @ ''"y","url":"u"}''\<rparr>\<close>
      \<open>\<lparr>HTTPMethod = ''GET'', PathParameters = [''id'' \<mapsto> ''b''], Body = []\<rparr>\<close>
      \<open>\<lparr>StatusCode = 404, RespBody = ''{"error": "not found"}''\<rparr>\<close>]
  by (simp add: handler_defs codec_defs has_key_def getSourceFromRecord_def assert_S_def)

subsection \<open>C6\<close>

text \<open>
  C6, counterexample. An update whose body has no id stores, from the empty table, a
  record whose id is the empty string: \<^verbatim>\<open>putHandler\<close> passes \<^verbatim>\<open>source.ID\<close> on as it
  is.
\<close>

theorem update_stores_empty_id:
  \<open>table (run_v2 std_json
      [(\<lparr>cfg_err = False, svc_err = False, new_uuid = ''u1''\<rparr>,
        \<lparr>HTTPMethod = ''PUT'', PathParameters = Map.empty, Body = ''{"name":"n","url":"u"}'',
         Authorizer = jwt_authorizer [''scope'' \<mapsto> ''https://wordlist.gaul.tech/write'']\<rparr>)]
      empty_world)
   = [[''id'' \<mapsto> AttributeValueMemberS [], ''name'' \<mapsto> AttributeValueMemberS ''n'',
       ''url'' \<mapsto> AttributeValueMemberS ''u'']]
   \<and> \<not> list_all id_nonempty (table (run_v2 std_json
      [(\<lparr>cfg_err = False, svc_err = False, new_uuid = ''u1''\<rparr>,
        \<lparr>HTTPMethod = ''PUT'', PathParameters = Map.empty, Body = ''{"name":"n","url":"u"}'',
         Authorizer = jwt_authorizer [''scope'' \<mapsto> ''https://wordlist.gaul.tech/write'']\<rparr>)]
      empty_world))\<close>
  by (simp add: handler_defs codec_defs id_nonempty_def)

text \<open>
  C6, as amended. In every table state reached from the empty table by invocations in
  which every generated identifier is non-empty and every update carries a non-empty
  id in its body, every stored record has a non-empty id; in either variant.
\<close>

theorem stored_ids_nonempty:
  assumes \<open>\<forall>(e, r) \<in> set steps. new_uuid e \<noteq> [] \<and> (HTTPMethod r = ''PUT'' \<longrightarrow> ID (Unmarshal j (Body r)) \<noteq> [])\<close>
    and \<open>\<forall>(e, r) \<in> set steps2. new_uuid e \<noteq> [] \<and> (HTTPMethod r = ''PUT'' \<longrightarrow> ID (Unmarshal j (Body r)) \<noteq> [])\<close>
  shows \<open>list_all id_nonempty (table (run j steps empty_world))
     \<and> list_all id_nonempty (table (run_v2 j steps2 empty_world))\<close>
  using run_inv [OF _ assms(1), of empty_world] run_v2_inv [OF _ assms(2), of empty_world]
  by (simp add: empty_world_def)

text \<open>
  C6, witness: a create, an update with id \<^verbatim>\<open>a\<close> and the deletion of the created
  record.
\<close>

theorem stored_ids_nonempty_witness:
  \<open>list_all id_nonempty (table (run std_json
      [(\<lparr>cfg_err = False, svc_err = False, new_uuid = ''u1''\<rparr>,
        \<lparr>HTTPMethod = ''POST'', PathParameters = Map.empty, Body = ''{"name":"n","url":"u"}''\<rparr>),
       (\<lparr>cfg_err = False, svc_err = False, new_uuid = ''u2''\<rparr>,
        \<lparr>HTTPMethod = ''PUT'', PathParameters = Map.empty, Body = ''{"id":"a","name":"m"}''\<rparr>),
       (\<lparr>cfg_err = False, svc_err = False, new_uuid = ''u3''\<rparr>,
        \<lparr>HTTPMethod = ''DELETE'', PathParameters = [''id'' \<mapsto> ''u1''], Body = []\<rparr>)]
      empty_world))
   \<and> table (run_v2 std_json
      [(\<lparr>cfg_err = False, svc_err = False, new_uuid = ''u1''\<rparr>,
        \<lparr>HTTPMethod = ''POST'', PathParameters = Map.empty, Body = ''{"name":"n","url":"u"}'',
         Authorizer = jwt_authorizer [''scope'' \<mapsto> ''https://wordlist.gaul.tech/write'']\<rparr>),
       (\<lparr>cfg_err = False, svc_err = False, new_uuid = ''u2''\<rparr>,
        \<lparr>HTTPMethod = ''PUT'', PathParameters = Map.empty, Body = ''{"id":"a","name":"m"}'',
         Authorizer = jwt_authorizer [''scope'' \<mapsto> ''https://wordlist.gaul.tech/write'']\<rparr>),
       (\<lparr>cfg_err = False, svc_err = False, new_uuid = ''u3''\<rparr>,
        \<lparr>HTTPMethod = ''DELETE'', PathParameters = [''id'' \<mapsto> ''u1''], Body = [],
         Authorizer = jwt_authorizer [''scope'' \<mapsto> ''https://wordlist.gaul.tech/write'']\<rparr>)]
      empty_world)
     = [[''id'' \<mapsto> AttributeValueMemberS ''a'', ''name'' \<mapsto> AttributeValueMemberS ''m'',
         ''url'' \<mapsto> AttributeValueMemberS []]]\<close>
  using stored_ids_nonempty [of
      \<open>[(\<lparr>cfg_err = False, svc_err = False, new_uuid = ''u1''\<rparr>,
        \<lparr>HTTPMethod = ''POST'', PathParameters = Map.empty, Body = ''{"name":"n","url":"u"}''\<rparr>),
       (\<lparr>cfg_err = False, svc_err = False, new_uuid = ''u2''\<rparr>,
        \<lparr>HTTPMethod = ''PUT'', PathParameters = Map.empty, Body = ''{"id":"a","name":"m"}''\<rparr>),
       (\<lparr>cfg_err = False, svc_err = False, new_uuid = ''u3''\<rparr>,
        \<lparr>HTTPMethod = ''DELETE'', PathParameters = [''id'' \<mapsto> ''u1''], Body = []\<rparr>)]\<close>
      std_json
      \<open>[(\<lparr>cfg_err = False, svc_err = False, new_uuid = ''u1''\<rparr>,
        \<lparr>HTTPMethod = ''POST'', PathParameters = Map.empty, Body = ''{"name":"n","url":"u"}'',
         Authorizer = jwt_authorizer [''scope'' \<mapsto> ''https://wordlist.gaul.tech/write'']\<rparr>),
       (\<lparr>cfg_err = False, svc_err = False, new_uuid = ''u2''\<rparr>,
        \<lparr>HTTPMethod = ''PUT'', PathParameters = Map.empty, Body = ''{"id":"a","name":"m"}'',
         Authorizer = jwt_authorizer [''scope'' \<mapsto> ''https://wordlist.gaul.tech/write'']\<rparr>),
       (\<lparr>cfg_err = False, svc_err = False, new_uuid = ''u3''\<rparr>,
        \<lparr>HTTPMethod = ''DELETE'', PathParameters = [''id'' \<mapsto> ''u1''], Body = [],
         Authorizer = jwt_authorizer [''scope'' \<mapsto> ''https://wordlist.gaul.tech/write'']\<rparr>)]\<close>]
  by (simp add: handler_defs codec_defs has_key_def id_nonempty_def)

subsection \<open>C7\<close>

text \<open>
  C7. A GET request without a path id against an empty table, when the configuration
  loads and the scan succeeds, is answered with status 200 and the body \<^verbatim>\<open>[]\<close>, by
  either variant.
\<close>

theorem list_of_empty_table:
  assumes \<open>table w = []\<close> and \<open>\<not> cfg_err e\<close> and \<open>\<not> svc_err e\<close>
    and \<open>HTTPMethod r1 = ''GET''\<close> and \<open>index_str (PathParameters r1) ''id'' = []\<close>
    and \<open>HTTPMethod r2 = ''GET''\<close> and \<open>index_str (PathParameters r2) ''id'' = []\<close>
  shows \<open>fst (handler j e r1 w) = Returned \<lparr>StatusCode = 200, RespBody = ''[]''\<rparr>
     \<and> fst (handler_v2 j e r2 w) = Returned \<lparr>StatusCode = 200, RespBody = ''[]''\<rparr>\<close>
  using assms
  by (simp add: handler_def handler_v2_def getHandler_def getAllHandler_def
      getDynamoDbService_def svc_Scan_def ok_def marshal_Sources_def)

text \<open>
  C7, witness: a list request to each variant, against the empty table.
\<close>

theorem list_of_empty_table_witness:
  \<open>fst (handler std_json \<lparr>cfg_err = False, svc_err = False, new_uuid = ''u1''\<rparr>
        \<lparr>HTTPMethod = ''GET'', PathParameters = Map.empty, Body = []\<rparr> empty_world)
   = Returned \<lparr>StatusCode = 200, RespBody = ''[]''\<rparr>
   \<and> fst (handler_v2 std_json \<lparr>cfg_err = False, svc_err = False, new_uuid = ''u1''\<rparr>
        \<lparr>HTTPMethod = ''GET'', PathParameters = [''id'' \<mapsto> []], Body = [], Authorizer = jwt_authorizer Map.empty\<rparr>
        empty_world)
   = Returned \<lparr>StatusCode = 200, RespBody = ''[]''\<rparr>\<close>
  using list_of_empty_table [of empty_world
      \<open>\<lparr>cfg_err = False, svc_err = False, new_uuid = ''u1''\<rparr>\<close>
      \<open>\<lparr>HTTPMethod = ''GET'', PathParameters = Map.empty, Body = []\<rparr>\<close>
      \<open>\<lparr>HTTPMethod = ''GET'', PathParameters = [''id'' \<mapsto> []], Body = [], Authorizer = jwt_authorizer Map.empty\<rparr>\<close>
      std_json]
  by (simp add: empty_world_def index_str_def)

subsection \<open>C8\<close>



subsection \<open>C9\<close>

text \<open>
  C9. When one of the attributes \<^verbatim>\<open>id\<close>, \<^verbatim>\<open>name\<close>, \<^verbatim>\<open>url\<close> is absent from the item or
  is not a string attribute, \<^verbatim>\<open>getSourceFromRecord\<close> panics: it returns no Source.
\<close>

theorem getSourceFromRecord_panics:
  assumes \<open>k \<in> {''id'', ''name'', ''url''}\<close>
    and \<open>\<forall>v. rec k \<noteq> Some (AttributeValueMemberS v)\<close>
  shows \<open>getSourceFromRecord rec = None\<close>
proof -
  have \<open>assert_S (rec k) = None\<close>
    using assms(2) by (simp add: assert_S_def split: option.splits AttributeValue.splits)
  with assms(1) show ?thesis
    by (auto simp add: getSourceFromRecord_def split: option.splits)
qed

text \<open>
  C9, witness: a number-typed name, and a missing url.
\<close>

theorem getSourceFromRecord_panics_witness:
  \<open>getSourceFromRecord [''id'' \<mapsto> AttributeValueMemberS ''a'',
                        ''name'' \<mapsto> AttributeValueMemberN ''5'',
                        ''url'' \<mapsto> AttributeValueMemberS ''u''] = None
   \<and> getSourceFromRecord [''id'' \<mapsto> AttributeValueMemberS ''a'',
                          ''name'' \<mapsto> AttributeValueMemberS ''n''] = None\<close>
  using getSourceFromRecord_panics [of \<open>''name''\<close>
      \<open>[''id'' \<mapsto> AttributeValueMemberS ''a'', ''name'' \<mapsto> AttributeValueMemberN ''5'',
        ''url'' \<mapsto> AttributeValueMemberS ''u'']\<close>]
    getSourceFromRecord_panics [of \<open>''url''\<close>
      \<open>[''id'' \<mapsto> AttributeValueMemberS ''a'', ''name'' \<mapsto> AttributeValueMemberS ''n'']\<close>]
  by simp

subsection \<open>C10\<close>

text \<open>
  C10. A GET request, with or without a path id, leaves the table as it was, and the calls
  it issues are reads (a scan or a get), in either variant.
\<close>

theorem get_leaves_store:
  assumes \<open>HTTPMethod r1 = ''GET''\<close> and \<open>HTTPMethod r2 = ''GET''\<close>
  shows \<open>table (snd (handler j e r1 w)) = table w
     \<and> (\<exists>cs. calls (snd (handler j e r1 w)) = calls w @ cs \<and> list_all is_read cs)
     \<and> table (snd (handler_v2 j e r2 w)) = table w
     \<and> (\<exists>cs. calls (snd (handler_v2 j e r2 w)) = calls w @ cs \<and> list_all is_read cs)\<close>
proof -
  have g: \<open>table (snd (getHandler j e req w)) = table w
      \<and> (\<exists>cs. calls (snd (getHandler j e req w)) = calls w @ cs \<and> list_all is_read cs)\<close>
    for req :: \<open>'a request_scheme\<close>
    using getHandler_world [of j e req w] by (auto simp add: is_read_def)
  show ?thesis
    using assms g [of r1] g [of r2] by (simp add: handler_def handler_v2_def)
qed

text \<open>
  C10, witness: a get by id to the legacy handler and a list request to the v2 handler,
  against a table of one record.
\<close>

theorem get_leaves_store_witness:
  \<open>snd (handler std_json \<lparr>cfg_err = False, svc_err = False, new_uuid = ''u1''\<rparr>
        \<lparr>HTTPMethod = ''GET'', PathParameters = [''id'' \<mapsto> ''a''], Body = []\<rparr>
        \<lparr>table = [[''id'' \<mapsto> AttributeValueMemberS ''a'', ''name'' \<mapsto> AttributeValueMemberS ''n'',
                    ''url'' \<mapsto> AttributeValueMemberS ''u'']], calls = []\<rparr>)
   = \<lparr>table = [[''id'' \<mapsto> AttributeValueMemberS ''a'', ''name'' \<mapsto> AttributeValueMemberS ''n'',
                ''url'' \<mapsto> AttributeValueMemberS ''u'']], calls = [GetItem ''a'']\<rparr>
   \<and> snd (handler_v2 std_json \<lparr>cfg_err = False, svc_err = False, new_uuid = ''u1''\<rparr>
        \<lparr>HTTPMethod = ''GET'', PathParameters = Map.empty, Body = [], Authorizer = jwt_authorizer Map.empty\<rparr>
        \<lparr>table = [[''id'' \<mapsto> AttributeValueMemberS ''a'', ''name'' \<mapsto> AttributeValueMemberS ''n'',
                    ''url'' \<mapsto> AttributeValueMemberS ''u'']], calls = []\<rparr>)
   = \<lparr>table = [[''id'' \<mapsto> AttributeValueMemberS ''a'', ''name'' \<mapsto> AttributeValueMemberS ''n'',
                ''url'' \<mapsto> AttributeValueMemberS ''u'']], calls = [Scan]\<rparr>\<close>
  using get_leaves_store [of
      \<open>\<lparr>HTTPMethod = ''GET'', PathParameters = [''id'' \<mapsto> ''a''], Body = []\<rparr>\<close>
      \<open>\<lparr>HTTPMethod = ''GET'', PathParameters = Map.empty, Body = [], Authorizer = jwt_authorizer Map.empty\<rparr>\<close>
      std_json \<open>\<lparr>cfg_err = False, svc_err = False, new_uuid = ''u1''\<rparr>\<close>
      \<open>\<lparr>table = [[''id'' \<mapsto> AttributeValueMemberS ''a'', ''name'' \<mapsto> AttributeValueMemberS ''n'',
                    ''url'' \<mapsto> AttributeValueMemberS ''u'']], calls = []\<rparr>\<close>]
  by (simp add: handler_defs codec_defs has_key_def getSourceFromRecord_def assert_S_def)

end
